theory Spec2Isabelle
  imports Main
begin

section \<open>JavaScript values\<close>

text \<open>
  The prop values of an animation configuration are typed \<^verbatim>\<open>any\<close>. The model covers the
  primitive values: \<^verbatim>\<open>undefined\<close>, \<^verbatim>\<open>null\<close>, booleans, strings and the integer-valued
  numbers (where the text of a number in a template literal is its decimal numeral).
\<close>

datatype jsvalue = JUndefined | JNull | JBool bool | JNum int | JStr string

text \<open>\<^verbatim>\<open>a === b\<close> on these primitives compares type and value.\<close>

definition strictEq :: "jsvalue \<Rightarrow> jsvalue \<Rightarrow> bool" where
  "strictEq a b = (a = b)"

text \<open>The truthiness test of \<^verbatim>\<open>v ? x : y\<close>, \<^verbatim>\<open>!v\<close> and \<^verbatim>\<open>v || w\<close>.\<close>

fun truthy :: "jsvalue \<Rightarrow> bool" where
  "truthy JUndefined = False"
| "truthy JNull = False"
| "truthy (JBool b) = b"
| "truthy (JNum n) = (n \<noteq> 0)"
| "truthy (JStr s) = (s \<noteq> [])"

fun showNat :: "nat \<Rightarrow> string" where
  "showNat n = (if n < 10 then [''0123456789'' ! n]
                else showNat (n div 10) @ [''0123456789'' ! (n mod 10)])"

declare showNat.simps [simp del]

definition showInt :: "int \<Rightarrow> string" where
  "showInt i = (if i < 0 then ''-'' @ showNat (nat (- i)) else showNat (nat i))"

text \<open>The text a value contributes to a template literal, \<^verbatim>\<open>`${v}`\<close>.\<close>

fun toString :: "jsvalue \<Rightarrow> string" where
  "toString JUndefined = ''undefined''"
| "toString JNull = ''null''"
| "toString (JBool b) = (if b then ''true'' else ''false'')"
| "toString (JNum n) = showInt n"
| "toString (JStr s) = s"

text \<open>
  \<^verbatim>\<open>v > 0\<close> converts \<^verbatim>\<open>v\<close> to a number first: \<^verbatim>\<open>undefined\<close> becomes NaN, \<^verbatim>\<open>null\<close> 0,
  \<^verbatim>\<open>false\<close> 0 and \<^verbatim>\<open>true\<close> 1. How a string converts is the host language's numeric
  literal grammar, which is no part of this program: \<open>strPositive s\<close> tells whether the string
  \<open>s\<close> converts to a number above zero, and every function that compares takes it as
  its first argument.
\<close>

fun greaterThanZero :: "(string \<Rightarrow> bool) \<Rightarrow> jsvalue \<Rightarrow> bool" where
  "greaterThanZero strPositive JUndefined = False"
| "greaterThanZero strPositive JNull = False"
| "greaterThanZero strPositive (JBool b) = b"
| "greaterThanZero strPositive (JNum n) = (n > 0)"
| "greaterThanZero strPositive (JStr s) = strPositive s"

text \<open>\<^verbatim>\<open>Array.prototype.join\<close> on an array of strings.\<close>

fun join :: "string \<Rightarrow> string list \<Rightarrow> string" where
  "join sep [] = []"
| "join sep [x] = x"
| "join sep (x # y # ys) = x @ sep @ join sep (y # ys)"

definition sq :: string where "sq = [CHR 0x27]"
definition dq :: string where "dq = [CHR 0x22]"
definition nl :: string where "nl = [CHR 0x0A]"

section \<open>Core types (core/types.ts)\<close>

datatype PropType = PNumber | PString | PBoolean | PColor | PBezier | PSelect | PRange

record SelectOption =
  opt_label :: string
  opt_value :: jsvalue

record PropConfig =
  label :: string
  type_p :: PropType
  defaultValue :: jsvalue
  min_p :: "int option"
  max_p :: "int option"
  step_p :: "int option"
  options_p :: "SelectOption list option"
  description_p :: "string option"
  isAnimationProp :: "bool option"
  validate :: "(jsvalue \<Rightarrow> bool) option"
  transform :: "(jsvalue \<Rightarrow> string) option"

text \<open>
  A prop schema is an object written as a literal: \<open>schema k\<close> is its own entry named
  \<open>k\<close>, \<open>None\<close> when it has none.
\<close>

type_synonym PropSchema = "string \<rightharpoonup> PropConfig"

text \<open>
  The lookup \<^verbatim>\<open>propSchema[key]\<close> finds more than the own entries: an object literal inherits
  the members of \<^verbatim>\<open>Object.prototype\<close>, so a key with one of their names gives that member (a
  function, or for \<^verbatim>\<open>__proto__\<close> the prototype itself) unless an own entry hides it. Such a
  member is truthy, and its properties \<^verbatim>\<open>defaultValue\<close>, \<^verbatim>\<open>transform\<close> and
  \<^verbatim>\<open>isAnimationProp\<close> are \<^verbatim>\<open>undefined\<close>.
\<close>

definition objectPrototypeNames :: "string list" where
  "objectPrototypeNames =
     [''constructor'', ''__defineGetter__'', ''__defineSetter__'', ''hasOwnProperty'',
      ''__lookupGetter__'', ''__lookupSetter__'', ''isPrototypeOf'', ''propertyIsEnumerable'',
      ''toString'', ''valueOf'', ''__proto__'', ''toLocaleString'']"

datatype member = Missing | Config PropConfig | Inherited

definition lookupProp :: "PropSchema \<Rightarrow> string \<Rightarrow> member" where
  "lookupProp schema key =
     (case schema key of
        Some propConfig \<Rightarrow> Config propConfig
      | None \<Rightarrow> if key \<in> set objectPrototypeNames then Inherited else Missing)"

text \<open>
  The reads \<^verbatim>\<open>propConfig.defaultValue\<close>, \<^verbatim>\<open>propConfig.transform\<close> and
  \<^verbatim>\<open>propConfig?.isAnimationProp\<close> on what the lookup gave, and the test \<^verbatim>\<open>!propConfig\<close>.
  The first two are reached only after that test, so never on \<open>Missing\<close>.
\<close>

fun missing :: "member \<Rightarrow> bool" where
  "missing Missing = True"
| "missing (Config propConfig) = False"
| "missing Inherited = False"

fun defaultValueOf :: "member \<Rightarrow> jsvalue" where
  "defaultValueOf (Config propConfig) = defaultValue propConfig"
| "defaultValueOf Inherited = JUndefined"
| "defaultValueOf Missing = JUndefined"

fun transformOf :: "member \<Rightarrow> (jsvalue \<Rightarrow> string) option" where
  "transformOf (Config propConfig) = transform propConfig"
| "transformOf Inherited = None"
| "transformOf Missing = None"

fun isAnimationPropOf :: "member \<Rightarrow> bool option" where
  "isAnimationPropOf (Config propConfig) = isAnimationProp propConfig"
| "isAnimationPropOf Inherited = None"
| "isAnimationPropOf Missing = None"

datatype StateMode = Toggle | Button

text \<open>A React component; the generator reads only its \<^verbatim>\<open>name\<close> property.\<close>

datatype ComponentType = ComponentType (componentName: string)

record AdditionalImport =
  imp_name :: string
  imp_path :: string
  isType :: "bool option"

text \<open>
  The interface declares \<^verbatim>\<open>component\<close> and \<^verbatim>\<open>propSchema\<close> as required, yet
  \<^verbatim>\<open>registerComponent\<close> tests both at run time, so the model lets them be missing
  (\<open>None\<close>). The objects \<^verbatim>\<open>defaultProps\<close> and \<^verbatim>\<open>props\<close> are the lists of their entries, in
  the order \<^verbatim>\<open>Object.entries\<close> yields them.
\<close>

record ComponentDefinition =
  id_c :: string
  name :: string
  description :: string
  component :: "ComponentType option"
  propSchema :: "PropSchema option"
  defaultProps :: "(string \<times> jsvalue) list"
  stateMode :: "StateMode option"
  category :: "string option"
  tags :: "string list option"
  importPath :: string
  additionalImports :: "AdditionalImport list option"
  componentCode :: "string option"
  previewWrapper :: "ComponentType option"

record AnimationConfig =
  componentId :: string
  props :: "(string \<times> jsvalue) list"
  isActive :: bool

record GeneratedCode =
  componentCode_g :: string
  usageCode :: string
  cssCode :: "string option"
  imports_g :: "string list"

text \<open>
  What a call can throw: an \<^verbatim>\<open>Error\<close> with its message, or the \<^verbatim>\<open>TypeError\<close> of reading
  a property of \<^verbatim>\<open>undefined\<close>.
\<close>

datatype error = Error string | TypeError

text \<open>
  \<^verbatim>\<open>xs.forEach(f)\<close> where the callback updates an array declared outside: the array is
  passed through the calls, and the first call that throws ends the loop.
\<close>

fun forEach :: "('s \<Rightarrow> 'a \<Rightarrow> error + 's) \<Rightarrow> 'a list \<Rightarrow> 's \<Rightarrow> error + 's" where
  "forEach f [] s = Inr s"
| "forEach f (x # xs) s = (case f s x of Inl e \<Rightarrow> Inl e | Inr s' \<Rightarrow> forEach f xs s')"

section \<open>Code generator (core/code-generator.ts)\<close>

subsection \<open>generateImports\<close>

text \<open>The callback of \<^verbatim>\<open>additionalImports.forEach\<close>, on the pair (typeImports, valueImports).\<close>

fun pushImport :: "string list \<times> string list \<Rightarrow> AdditionalImport \<Rightarrow> string list \<times> string list" where
  "pushImport (typeImports, valueImports) imp =
     (if isType imp = Some True then (typeImports @ [imp_name imp], valueImports)
      else (typeImports, valueImports @ [imp_name imp]))"

definition typeImportLine :: "string list \<Rightarrow> string \<Rightarrow> string" where
  "typeImportLine names path = ''import type { '' @ join '', '' names @ '' } from '' @ sq @ path @ sq"

definition importLine :: "string list \<Rightarrow> string \<Rightarrow> string" where
  "importLine names path = ''import { '' @ join '', '' names @ '' } from '' @ sq @ path @ sq"

definition generateImports :: "ComponentDefinition \<Rightarrow> error + string list" where
  "generateImports defn =
     (case component defn of
        None \<Rightarrow> Inl TypeError
      | Some c \<Rightarrow>
          (let mainImportNames = [componentName c] in
           case additionalImports defn of
             None \<Rightarrow> Inr [importLine mainImportNames (importPath defn)]
           | Some imps \<Rightarrow>
               (let (typeImports, valueImports) = foldl pushImport ([], []) imps;
                    imports = (if length typeImports > 0
                               then [typeImportLine typeImports (importPath defn)] else []);
                    mainImportNames = (if length valueImports > 0
                               then mainImportNames @ valueImports else mainImportNames)
                in Inr (importLine mainImportNames (importPath defn) # imports))))"

subsection \<open>generateComponentCode\<close>

definition generateComponentCode :: "ComponentDefinition \<Rightarrow> string" where
  "generateComponentCode defn =
     ''// Component is defined in: '' @ importPath defn @ nl @
     ''// Use the import statement above to use this component''"

subsection \<open>generateUsageCode\<close>

text \<open>The lines pushed before the loop over the props.\<close>

definition usageHead :: "string \<Rightarrow> string \<Rightarrow> string list" where
  "usageHead cName path =
     [''// Usage Example'',
      sq @ ''use client'' @ sq,
      '''',
      ''import { useState } from '' @ sq @ ''react'' @ sq,
      ''import { '' @ cName @ '' } from '' @ sq @ path @ sq,
      '''',
      ''export function Example() {'',
      ''  const [checked, setChecked] = useState(false)'',
      '''',
      ''  return ('',
      ''    <'' @ cName,
      ''      checked={checked}'',
      ''      onCheckedChange={setChecked}'']"

definition attrLine :: "string \<Rightarrow> string \<Rightarrow> string" where
  "attrLine key formattedValue = ''      '' @ key @ ''='' @ formattedValue"

text \<open>The callback of \<^verbatim>\<open>Object.entries(config.props).forEach\<close>, on the array \<^verbatim>\<open>lines\<close>.\<close>

fun usageProp :: "ComponentDefinition \<Rightarrow> string list \<Rightarrow> string \<times> jsvalue \<Rightarrow> error + string list" where
  "usageProp defn lines (key, val) =
     (case propSchema defn of
        None \<Rightarrow> Inl TypeError
      | Some schema \<Rightarrow>
          (let propConfig = lookupProp schema key in
           if missing propConfig then Inr lines
           else if strictEq val (defaultValueOf propConfig) then Inr lines
           else if strictEq val (JStr []) \<and> strictEq (defaultValueOf propConfig) (JStr [])
           then Inr lines
           else
             (case transformOf propConfig of
                Some t \<Rightarrow>
                  (let formattedValue = t val in
                   if formattedValue = ''undefined'' then Inr lines
                   else Inr (lines @ [attrLine key formattedValue]))
              | None \<Rightarrow>
                  (case val of
                     JStr s \<Rightarrow> Inr (lines @ [attrLine key (dq @ s @ dq)])
                   | JBool b \<Rightarrow>
                       (let formattedValue = (if b then ''true'' else ''{false}'') in
                        if \<not> b then Inr lines
                        else Inr (lines @ [attrLine key formattedValue]))
                   | _ \<Rightarrow> Inr (lines @ [attrLine key (''{'' @ toString val @ ''}'')])))))"

definition generateUsageCode :: "AnimationConfig \<Rightarrow> ComponentDefinition \<Rightarrow> error + string" where
  "generateUsageCode config defn =
     (case component defn of
        None \<Rightarrow> Inl TypeError
      | Some c \<Rightarrow>
          (case forEach (usageProp defn) (props config) (usageHead (componentName c) (importPath defn)) of
             Inl e \<Rightarrow> Inl e
           | Inr lines \<Rightarrow> Inr (join nl (lines @ [''    />'', ''  )'', ''}'']))))"

subsection \<open>generateCSSCode\<close>

text \<open>The callback of \<^verbatim>\<open>Object.entries(config.props).forEach\<close>, on the array \<^verbatim>\<open>cssProps\<close>.\<close>

fun cssProp :: "(string \<Rightarrow> bool) \<Rightarrow> ComponentDefinition \<Rightarrow> string list \<Rightarrow> string \<times> jsvalue \<Rightarrow> error + string list" where
  "cssProp strPositive defn cssProps (key, val) =
     (case propSchema defn of
        None \<Rightarrow> Inl TypeError
      | Some schema \<Rightarrow>
          (let propConfig = lookupProp schema key in
               if isAnimationPropOf propConfig \<noteq> Some True then Inr cssProps
               else if strictEq val (defaultValueOf propConfig) then Inr cssProps
               else if key = ''duration''
               then Inr (cssProps @ [''  transition-duration: '' @ toString val @ ''ms;''])
               else if key = ''timingFunction''
               then Inr (cssProps @ [''  transition-timing-function: '' @ toString val @ '';''])
               else if key = ''delay''
               then (if greaterThanZero strPositive val
                     then Inr (cssProps @ [''  transition-delay: '' @ toString val @ ''ms;''])
                     else Inr cssProps)
               else Inr cssProps))"

definition generateCSSCode :: "(string \<Rightarrow> bool) \<Rightarrow> AnimationConfig \<Rightarrow> ComponentDefinition \<Rightarrow> error + string option" where
  "generateCSSCode strPositive config defn =
     (case forEach (cssProp strPositive defn) (props config) [] of
        Inl e \<Rightarrow> Inl e
      | Inr cssProps \<Rightarrow>
          if length cssProps = 0 then Inr None
          else Inr (Some (''.animated-element {'' @ nl @ join nl cssProps @ nl @ ''}'')))"

subsection \<open>generateCode\<close>

text \<open>\<^verbatim>\<open>definition.componentCode || generateComponentCode(definition)\<close>\<close>

definition componentCodeOr :: "ComponentDefinition \<Rightarrow> string" where
  "componentCodeOr defn =
     (case componentCode defn of
        None \<Rightarrow> generateComponentCode defn
      | Some s \<Rightarrow> if truthy (JStr s) then s else generateComponentCode defn)"

definition generateCode :: "(string \<Rightarrow> bool) \<Rightarrow> AnimationConfig \<Rightarrow> ComponentDefinition \<Rightarrow> error + GeneratedCode" where
  "generateCode strPositive config defn =
     (case generateImports defn of
        Inl e \<Rightarrow> Inl e
      | Inr imports \<Rightarrow>
          (let cCode = componentCodeOr defn in
           case generateUsageCode config defn of
             Inl e \<Rightarrow> Inl e
           | Inr uCode \<Rightarrow>
               (case generateCSSCode strPositive config defn of
                  Inl e \<Rightarrow> Inl e
                | Inr css \<Rightarrow>
                    Inr \<lparr>componentCode_g = cCode, usageCode = uCode,
                         cssCode = css, imports_g = imports\<rparr>)))"

section \<open>Component registry (registry/ComponentRegistry.ts)\<close>

text \<open>
  The registry is a \<^verbatim>\<open>Map\<close> from component ids to definitions: its entries in insertion
  order. \<^verbatim>\<open>set\<close> replaces the value of a key that is present, in place, and appends a new
  key at the end.
\<close>

type_synonym registry = "(string \<times> ComponentDefinition) list"

definition mapHas :: "registry \<Rightarrow> string \<Rightarrow> bool" where
  "mapHas m k = (k \<in> set (map fst m))"

definition mapGet :: "registry \<Rightarrow> string \<Rightarrow> ComponentDefinition option" where
  "mapGet m k = map_of m k"

definition mapSet :: "registry \<Rightarrow> string \<Rightarrow> ComponentDefinition \<Rightarrow> registry" where
  "mapSet m k v =
     (if mapHas m k then map (\<lambda>(k', v'). if k' = k then (k', v) else (k', v')) m
      else m @ [(k, v)])"

definition mapDelete :: "registry \<Rightarrow> string \<Rightarrow> bool \<times> registry" where
  "mapDelete m k = (mapHas m k, filter (\<lambda>(k', v'). k' \<noteq> k) m)"

text \<open>
  Every operation takes the registry and returns it with its result. A call that throws
  returns \<open>Inl\<close> of the error, with the registry as the statements before the
  \<^verbatim>\<open>throw\<close> left it.
\<close>

definition registerComponent :: "ComponentDefinition \<Rightarrow> registry \<Rightarrow> (error + unit) \<times> registry" where
  "registerComponent defn componentRegistry =
     (if mapHas componentRegistry (id_c defn)
      then (Inl (Error (''Component with ID '' @ dq @ id_c defn @ dq @ '' is already registered'')),
            componentRegistry)
      else
        (case component defn of
           None \<Rightarrow>
             (Inl (Error (''Component definition for '' @ dq @ id_c defn @ dq @
                          '' is missing the component property'')),
              componentRegistry)
         | Some c \<Rightarrow>
             (case propSchema defn of
                None \<Rightarrow>
                  (Inl (Error (''Component definition for '' @ dq @ id_c defn @ dq @
                               '' is missing propSchema'')),
                   componentRegistry)
              | Some schema \<Rightarrow> (Inr (), mapSet componentRegistry (id_c defn) defn))))"

definition unregisterComponent :: "string \<Rightarrow> registry \<Rightarrow> bool \<times> registry" where
  "unregisterComponent k componentRegistry = mapDelete componentRegistry k"

definition getComponent :: "string \<Rightarrow> registry \<Rightarrow> ComponentDefinition option" where
  "getComponent k componentRegistry = mapGet componentRegistry k"

definition getAllComponents :: "registry \<Rightarrow> ComponentDefinition list" where
  "getAllComponents componentRegistry = map snd componentRegistry"

definition hasComponent :: "string \<Rightarrow> registry \<Rightarrow> bool" where
  "hasComponent k componentRegistry = mapHas componentRegistry k"

definition clearRegistry :: "registry \<Rightarrow> registry" where
  "clearRegistry componentRegistry = []"

section \<open>The toggle's definition (registry/definitions/liquid-toggle.ts)\<close>

text \<open>The transform \<^verbatim>\<open>(value) => `"${value}"`\<close> of \<^verbatim>\<open>timingFunction\<close>.\<close>

definition quoted :: "jsvalue \<Rightarrow> string" where
  "quoted val = dq @ toString val @ dq"

text \<open>The transform \<^verbatim>\<open>(value) => value ? `"${value}"` : 'undefined'\<close> of the two colours.\<close>

definition quotedOrUndefined :: "jsvalue \<Rightarrow> string" where
  "quotedOrUndefined val = (if truthy val then dq @ toString val @ dq else ''undefined'')"

definition variantOptions :: "SelectOption list" where
  "variantOptions =
     [\<lparr>opt_label = ''Default'', opt_value = JStr ''default''\<rparr>,
      \<lparr>opt_label = ''Success'', opt_value = JStr ''success''\<rparr>,
      \<lparr>opt_label = ''Warning'', opt_value = JStr ''warning''\<rparr>,
      \<lparr>opt_label = ''Danger'', opt_value = JStr ''danger''\<rparr>]"

definition liquidTogglePropSchema :: "(string \<times> PropConfig) list" where
  "liquidTogglePropSchema =
     [(''variant'',
       \<lparr>label = ''Variant'', type_p = PSelect, defaultValue = JStr ''default'',
        min_p = None, max_p = None, step_p = None, options_p = Some variantOptions,
        description_p = Some ''Visual variant for color theming'',
        isAnimationProp = None, validate = None, transform = None\<rparr>),
      (''duration'',
       \<lparr>label = ''Duration'', type_p = PRange, defaultValue = JNum 600,
        min_p = Some 100, max_p = Some 2000, step_p = Some 50, options_p = None,
        description_p = Some ''Animation duration in milliseconds'',
        isAnimationProp = Some True, validate = None, transform = None\<rparr>),
      (''timingFunction'',
       \<lparr>label = ''Timing Function'', type_p = PBezier,
        defaultValue = JStr ''cubic-bezier(0.4, 0.0, 0.2, 1)'',
        min_p = None, max_p = None, step_p = None, options_p = None,
        description_p = Some ''Animation easing curve'',
        isAnimationProp = Some True, validate = None, transform = Some quoted\<rparr>),
      (''delay'',
       \<lparr>label = ''Delay'', type_p = PRange, defaultValue = JNum 0,
        min_p = Some 0, max_p = Some 1000, step_p = Some 50, options_p = None,
        description_p = Some ''Animation delay in milliseconds'',
        isAnimationProp = Some True, validate = None, transform = None\<rparr>),
      (''primaryColor'',
       \<lparr>label = ''Primary Color'', type_p = PColor, defaultValue = JStr [],
        min_p = None, max_p = None, step_p = None, options_p = None,
        description_p = Some ''Primary color (overrides variant)'',
        isAnimationProp = None, validate = None, transform = Some quotedOrUndefined\<rparr>),
      (''secondaryColor'',
       \<lparr>label = ''Secondary Color'', type_p = PColor, defaultValue = JStr [],
        min_p = None, max_p = None, step_p = None, options_p = None,
        description_p = Some ''Secondary color (overrides variant)'',
        isAnimationProp = None, validate = None, transform = Some quotedOrUndefined\<rparr>),
      (''disabled'',
       \<lparr>label = ''Disabled'', type_p = PBoolean, defaultValue = JBool False,
        min_p = None, max_p = None, step_p = None, options_p = None,
        description_p = Some ''Disabled state'',
        isAnimationProp = None, validate = None, transform = None\<rparr>)]"

definition liquidToggleDefinition :: ComponentDefinition where
  "liquidToggleDefinition =
     \<lparr>id_c = ''liquid-toggle'',
      name = ''Liquid Toggle'',
      description = ''A toggle switch with smooth liquid morphing animations and gooey effects'',
      component = Some (ComponentType ''LiquidToggle''),
      propSchema = Some (map_of liquidTogglePropSchema),
      defaultProps =
        [(''variant'', JStr ''default''),
         (''duration'', JNum 600),
         (''timingFunction'', JStr ''cubic-bezier(0.4, 0.0, 0.2, 1)''),
         (''delay'', JNum 0),
         (''primaryColor'', JStr []),
         (''secondaryColor'', JStr []),
         (''disabled'', JBool False)],
      stateMode = None,
      category = Some ''forms'',
      tags = Some [''toggle'', ''switch'', ''liquid'', ''animated'', ''form''],
      importPath = ''@/components/liquid-components/LiquidToggle'',
      additionalImports =
        Some [\<lparr>imp_name = ''LiquidToggleProps'',
               imp_path = ''@/components/liquid-components/LiquidToggle'',
               isType = Some True\<rparr>],
      componentCode = None,
      previewWrapper = None\<rparr>"

section \<open>Notions the properties are stated with\<close>

text \<open>
  The names of the additional imports whose \<^verbatim>\<open>isType\<close> is true, and of the others (the
  value imports), each in the order of \<^verbatim>\<open>additionalImports\<close>.
\<close>

definition typeImportNames :: "ComponentDefinition \<Rightarrow> string list" where
  "typeImportNames defn =
     (case additionalImports defn of
        None \<Rightarrow> []
      | Some imps \<Rightarrow> map imp_name (filter (\<lambda>imp. isType imp = Some True) imps))"

definition valueImportNames :: "ComponentDefinition \<Rightarrow> string list" where
  "valueImportNames defn =
     (case additionalImports defn of
        None \<Rightarrow> []
      | Some imps \<Rightarrow> map imp_name (filter (\<lambda>imp. isType imp \<noteq> Some True) imps))"

text \<open>
  An entry of the props is an animation prop off its default: its PropConfig exists, has
  \<^verbatim>\<open>isAnimationProp\<close> true, and the value is not strictly equal to the default value.
\<close>

definition animationPropChanged :: "PropSchema \<Rightarrow> string \<times> jsvalue \<Rightarrow> bool" where
  "animationPropChanged schema entry =
     (case schema (fst entry) of
        None \<Rightarrow> False
      | Some propConfig \<Rightarrow>
          isAnimationProp propConfig = Some True \<and> \<not> strictEq (snd entry) (defaultValue propConfig))"

definition cssNameTable :: "string list" where
  "cssNameTable = [''duration'', ''timingFunction'', ''delay'']"

text \<open>
  A configuration of the toggle as the studio holds it after some edits: every prop of
  \<^verbatim>\<open>defaultProps\<close>, four of them changed.
\<close>

definition editedToggleConfig :: AnimationConfig where
  "editedToggleConfig =
     \<lparr>componentId = ''liquid-toggle'',
      props =
        [(''variant'', JStr ''success''),
         (''duration'', JNum 800),
         (''timingFunction'', JStr ''cubic-bezier(0.4, 0.0, 0.2, 1)''),
         (''delay'', JNum 0),
         (''primaryColor'', JStr []),
         (''secondaryColor'', JStr ''#10b981''),
         (''disabled'', JBool True)],
      isActive = False\<rparr>"



text \<open>
  The toggle's configuration when the studio opens it: the props are a copy of
  \<^verbatim>\<open>defaultProps\<close>.
\<close>

definition defaultToggleConfig :: AnimationConfig where
  "defaultToggleConfig =
     \<lparr>componentId = ''liquid-toggle'',
      props = defaultProps liquidToggleDefinition,
      isActive = False\<rparr>"

text \<open>
  Where a closed example needs the conversion of strings, this function stands for it: a
  string of decimal digits converts to a number above zero when one of its digits is not
  0. None of the examples compares a string with zero.
\<close>

definition digitsPositive :: "string \<Rightarrow> bool" where
  "digitsPositive s =
     (s \<noteq> [] \<and> list_all (\<lambda>c. c \<in> set ''0123456789'') s \<and> list_ex (\<lambda>c. c \<noteq> CHR ''0'') s)"

section \<open>Import generation\<close>

lemma foldl_pushImport:
  "foldl pushImport (ts, vs) imps =
     (ts @ map imp_name (filter (\<lambda>imp. isType imp = Some True) imps),
      vs @ map imp_name (filter (\<lambda>imp. isType imp \<noteq> Some True) imps))"
  by (induction imps arbitrary: ts vs) simp_all

lemma generateImports_eq:
  assumes "component defn = Some c"
  shows "generateImports defn =
           Inr (importLine (componentName c # valueImportNames defn) (importPath defn) #
                (if typeImportNames defn = [] then []
                 else [typeImportLine (typeImportNames defn) (importPath defn)]))"
  using assms
  by (auto simp add: generateImports_def typeImportNames_def valueImportNames_def foldl_pushImport
      Let_def split: option.splits)

lemma toggle_imports:
  "component liquidToggleDefinition = Some (ComponentType ''LiquidToggle'')"
  "typeImportNames liquidToggleDefinition = [''LiquidToggleProps'']"
  "valueImportNames liquidToggleDefinition = []"
  "importPath liquidToggleDefinition = ''@/components/liquid-components/LiquidToggle''"
  "name liquidToggleDefinition = ''Liquid Toggle''"
  by (simp_all add: liquidToggleDefinition_def typeImportNames_def valueImportNames_def)

text \<open>
  C4, as amended: the name list of the primary import line starts with the name of the
  component function, \<^verbatim>\<open>definition.component.name\<close> (not the display name
  \<^verbatim>\<open>definition.name\<close>), followed by the names of the value additional imports in their
  given order.
\<close>

theorem generateImports_primary_names:
  assumes "component defn = Some c"
  shows "\<exists>rest. generateImports defn =
           Inr (importLine (componentName c # valueImportNames defn) (importPath defn) # rest)"
  using generateImports_eq [OF assms] by simp

theorem generateImports_primary_names_witness:
  "component liquidToggleDefinition = Some (ComponentType ''LiquidToggle'') \<and>
   (\<exists>rest. generateImports liquidToggleDefinition =
      Inr ((''import { LiquidToggle } from '@/components/liquid-components/LiquidToggle'' @ sq) # rest))"
  using generateImports_primary_names [of liquidToggleDefinition "ComponentType ''LiquidToggle''"]
  by (simp add: toggle_imports importLine_def sq_def)

text \<open>
  C4 as stated fails on the toggle: its \<^verbatim>\<open>name\<close> is \<^verbatim>\<open>Liquid Toggle\<close>, and the primary
  import line names \<^verbatim>\<open>LiquidToggle\<close>.
\<close>

theorem generateImports_definition_name_counterexample:
  "generateImports liquidToggleDefinition =
     Inr [(''import { LiquidToggle } from '@/components/liquid-components/LiquidToggle'' @ sq),
          (''import type { LiquidToggleProps } from '@/components/liquid-components/LiquidToggle'' @ sq)] \<and>
   (''import { LiquidToggle } from '@/components/liquid-components/LiquidToggle'' @ sq) \<noteq>
     importLine (name liquidToggleDefinition # valueImportNames liquidToggleDefinition)
       (importPath liquidToggleDefinition)"
  by (simp add: generateImports_eq [of liquidToggleDefinition "ComponentType ''LiquidToggle''"]
      toggle_imports importLine_def typeImportLine_def sq_def)

text \<open>
  The primary import line is the first of the list that generateImports returns, and the
  type-only import line, when there is one, the second.
\<close>

lemma generateImports_index:
  assumes "component defn = Some c"
  shows "\<exists>imports. generateImports defn = Inr imports \<and>
           imports ! 0 = importLine (componentName c # valueImportNames defn) (importPath defn) \<and>
           (typeImportNames defn \<noteq> [] \<longrightarrow>
              length imports = 2 \<and>
              imports ! 1 = typeImportLine (typeImportNames defn) (importPath defn))"
  using generateImports_eq [OF assms] by simp

text \<open>
  C10: the imports are exactly one primary import line, followed by one type-only import
  line when some additional import has \<^verbatim>\<open>isType\<close> true and by nothing otherwise, so
  their length is 1 or 2. The value imports add no line of their own: their names are in
  the name list of the primary line.
\<close>

theorem generateImports_length:
  assumes "component defn = Some c"
  shows "\<exists>imports. generateImports defn = Inr imports \<and>
           (length imports = 1 \<or> length imports = 2) \<and>
           imports = importLine (componentName c # valueImportNames defn) (importPath defn) #
                     (if typeImportNames defn = [] then []
                      else [typeImportLine (typeImportNames defn) (importPath defn)])"
  using generateImports_eq [OF assms] by simp

theorem generateImports_length_witness:
  "component (liquidToggleDefinition\<lparr>additionalImports :=
       Some [\<lparr>imp_name = ''LiquidToggleProps'',
              imp_path = ''@/components/liquid-components/LiquidToggle'', isType = Some True\<rparr>,
             \<lparr>imp_name = ''GooeyFilter'',
              imp_path = ''@/components/liquid-components/LiquidToggle'', isType = None\<rparr>]\<rparr>) =
     Some (ComponentType ''LiquidToggle'') \<and>
   generateImports (liquidToggleDefinition\<lparr>additionalImports :=
       Some [\<lparr>imp_name = ''LiquidToggleProps'',
              imp_path = ''@/components/liquid-components/LiquidToggle'', isType = Some True\<rparr>,
             \<lparr>imp_name = ''GooeyFilter'',
              imp_path = ''@/components/liquid-components/LiquidToggle'', isType = None\<rparr>]\<rparr>) =
     Inr [(''import { LiquidToggle, GooeyFilter } from '@/components/liquid-components/LiquidToggle'' @ sq),
          (''import type { LiquidToggleProps } from '@/components/liquid-components/LiquidToggle'' @ sq)]"
  using generateImports_length [of "liquidToggleDefinition\<lparr>additionalImports :=
       Some [\<lparr>imp_name = ''LiquidToggleProps'',
              imp_path = ''@/components/liquid-components/LiquidToggle'', isType = Some True\<rparr>,
             \<lparr>imp_name = ''GooeyFilter'',
              imp_path = ''@/components/liquid-components/LiquidToggle'', isType = None\<rparr>]\<rparr>"
      "ComponentType ''LiquidToggle''"]
  by (simp add: liquidToggleDefinition_def typeImportNames_def valueImportNames_def
      importLine_def typeImportLine_def sq_def)

section \<open>Iteration, and the fields of the examples\<close>

lemma forEach_append:
  "forEach f (xs @ ys) s = (case forEach f xs s of Inl e \<Rightarrow> Inl e | Inr s' \<Rightarrow> forEach f ys s')"
  by (induction xs arbitrary: s) (simp_all split: sum.splits)

lemma forEach_skip:
  assumes "\<And>s. f s x = Inr s"
  shows "forEach f (xs @ x # ys) s = forEach f (xs @ ys) s"
  by (simp add: forEach_append assms split: sum.splits)

lemma forEach_all_skip:
  assumes "\<And>x s. x \<in> set xs \<Longrightarrow> f s x = Inr s"
  shows "forEach f xs s = Inr s"
  using assms by (induction xs arbitrary: s) simp_all

lemma forEach_returns:
  assumes "\<And>s x. \<exists>s'. f s x = Inr s'"
  shows "\<exists>s'. forEach f xs s = Inr s'"
proof (induction xs arbitrary: s)
  case Nil
  show ?case by simp
next
  case (Cons x xs)
  obtain s1 where "f s x = Inr s1" using assms by blast
  with Cons.IH [of s1] show ?case by simp
qed

lemma toggle_fields:
  "component liquidToggleDefinition = Some (ComponentType ''LiquidToggle'')"
  "propSchema liquidToggleDefinition = Some (map_of liquidTogglePropSchema)"
  "importPath liquidToggleDefinition = ''@/components/liquid-components/LiquidToggle''"
  "id_c liquidToggleDefinition = ''liquid-toggle''"
  by (simp_all add: liquidToggleDefinition_def)

lemma toggle_prop:
  "map_of liquidTogglePropSchema ''duration'' =
     Some \<lparr>label = ''Duration'', type_p = PRange, defaultValue = JNum 600,
        min_p = Some 100, max_p = Some 2000, step_p = Some 50, options_p = None,
        description_p = Some ''Animation duration in milliseconds'',
        isAnimationProp = Some True, validate = None, transform = None\<rparr>"
  "map_of liquidTogglePropSchema ''primaryColor'' =
     Some \<lparr>label = ''Primary Color'', type_p = PColor, defaultValue = JStr [],
        min_p = None, max_p = None, step_p = None, options_p = None,
        description_p = Some ''Primary color (overrides variant)'',
        isAnimationProp = None, validate = None, transform = Some quotedOrUndefined\<rparr>"
  "map_of liquidTogglePropSchema ''variant'' =
     Some \<lparr>label = ''Variant'', type_p = PSelect, defaultValue = JStr ''default'',
        min_p = None, max_p = None, step_p = None, options_p = Some variantOptions,
        description_p = Some ''Visual variant for color theming'',
        isAnimationProp = None, validate = None, transform = None\<rparr>"
  "map_of liquidTogglePropSchema ''size'' = None"
  by (simp_all add: liquidTogglePropSchema_def)


section \<open>Usage code\<close>

lemma usageProp_returns:
  assumes "propSchema defn = Some schema"
  shows "\<exists>lines'. usageProp defn lines entry = Inr lines'"
  using assms by (cases entry) (auto simp add: lookupProp_def Let_def Let_def split: option.splits jsvalue.splits)

lemma generateUsageCode_returns:
  assumes "component defn = Some c" and "propSchema defn = Some schema"
  shows "\<exists>code. generateUsageCode config defn = Inr code"
proof -
  obtain lines where "forEach (usageProp defn) (props config)
      (usageHead (componentName c) (importPath defn)) = Inr lines"
    using forEach_returns [of "usageProp defn"] usageProp_returns [OF assms(2)] by blast
  then show ?thesis using assms(1) by (simp add: lookupProp_def Let_def generateUsageCode_def)
qed

lemma generateUsageCode_skip:
  assumes "\<And>lines. usageProp defn lines entry = Inr lines"
  shows "generateUsageCode (config\<lparr>props := before @ entry # after\<rparr>) defn =
         generateUsageCode (config\<lparr>props := before @ after\<rparr>) defn"
  by (simp add: lookupProp_def Let_def generateUsageCode_def forEach_skip assms split: option.splits)

text \<open>The usage code of the edited toggle, line by line.\<close>

lemma generateUsageCode_edited_toggle:
  "generateUsageCode editedToggleConfig liquidToggleDefinition =
     Inr (join nl
       [''// Usage Example'',
        sq @ ''use client'' @ sq,
        [],
        ''import { useState } from 'react'' @ sq,
        ''import { LiquidToggle } from '@/components/liquid-components/LiquidToggle'' @ sq,
        [],
        ''export function Example() {'',
        ''  const [checked, setChecked] = useState(false)'',
        [],
        ''  return ('',
        ''    <LiquidToggle'',
        ''      checked={checked}'',
        ''      onCheckedChange={setChecked}'',
        ''      variant='' @ dq @ ''success'' @ dq,
        ''      duration={800}'',
        ''      secondaryColor='' @ dq @ ''#10b981'' @ dq,
        ''      disabled=true'',
        ''    />'',
        ''  )'',
        ''}''])"
  by (simp add: lookupProp_def Let_def generateUsageCode_def editedToggleConfig_def liquidToggleDefinition_def
      liquidTogglePropSchema_def usageHead_def attrLine_def strictEq_def quoted_def
      quotedOrUndefined_def showInt_def showNat.simps sq_def dq_def Let_def)

text \<open>
  What holds of the entries that add no line: when the lookup gives \<^verbatim>\<open>undefined\<close>, or the
  value is strictly equal to the default value of the prop's own PropConfig, the callback
  leaves the lines as they are, and the usage code is the one generated without the entry.
\<close>

lemma usageProp_omits_missing_and_default:
  assumes "propSchema defn = Some schema"
    and "lookupProp schema key = Missing \<or>
         (\<exists>propConfig. schema key = Some propConfig \<and> strictEq val (defaultValue propConfig))"
  shows "usageProp defn lines (key, val) = Inr lines \<and>
         generateUsageCode (config\<lparr>props := before @ (key, val) # after\<rparr>) defn =
           generateUsageCode (config\<lparr>props := before @ after\<rparr>) defn"
proof -
  have "usageProp defn ls (key, val) = Inr ls" for ls
    using assms(2)
  proof
    assume "lookupProp schema key = Missing"
    then show ?thesis using assms(1) by (simp add: Let_def)
  next
    assume "\<exists>propConfig. schema key = Some propConfig \<and> strictEq val (defaultValue propConfig)"
    then show ?thesis using assms(1) by (auto simp add: lookupProp_def Let_def)
  qed
  then show ?thesis
    using generateUsageCode_skip [of defn "(key, val)"] by simp
qed

text \<open>
  C2: an entry of the props whose name has no PropConfig in the schema adds no attribute
  line, and neither does one whose value is strictly equal to the default value of its
  PropConfig. The code breaks the first half at the names of the members of
  \<^verbatim>\<open>Object.prototype\<close>: the toggle's schema has no PropConfig named \<^verbatim>\<open>constructor\<close>, and the
  prop \<^verbatim>\<open>constructor\<close> set to the string \<^verbatim>\<open>x\<close> adds the line \<^verbatim>\<open>constructor="x"\<close>.
\<close>

theorem usageProp_inherited_name_emitted:
  "map_of liquidTogglePropSchema ''constructor'' = None \<and>
   usageProp liquidToggleDefinition [] (''constructor'', JStr ''x'') =
     Inr [''      constructor='' @ dq @ ''x'' @ dq] \<and>
   generateUsageCode (defaultToggleConfig\<lparr>props := [(''constructor'', JStr ''x'')]\<rparr>)
       liquidToggleDefinition \<noteq>
     generateUsageCode (defaultToggleConfig\<lparr>props := []\<rparr>) liquidToggleDefinition"
  by (simp add: generateUsageCode_def liquidToggleDefinition_def liquidTogglePropSchema_def
      lookupProp_def objectPrototypeNames_def Let_def strictEq_def attrLine_def usageHead_def
      sq_def dq_def nl_def)

text \<open>
  C3: when the PropConfig has a transform and the transform of the current value is the
  string \<^verbatim>\<open>undefined\<close>, the attribute is omitted, whatever the default value is. So the
  transform \<^verbatim>\<open>v => v ? `"${v}"` : 'undefined'\<close> omits the empty string.
\<close>

theorem usageProp_transform_undefined:
  assumes "propSchema defn = Some schema" and "schema key = Some propConfig"
    and "transform propConfig = Some t"
  shows "(t val = ''undefined'' \<longrightarrow>
            usageProp defn lines (key, val) = Inr lines \<and>
            generateUsageCode (config\<lparr>props := before @ (key, val) # after\<rparr>) defn =
              generateUsageCode (config\<lparr>props := before @ after\<rparr>) defn) \<and>
         (t = quotedOrUndefined \<longrightarrow> usageProp defn lines (key, JStr []) = Inr lines)"
proof -
  have "usageProp defn ls (key, val) = Inr ls" if "t val = ''undefined''" for ls
    using assms that by (simp add: lookupProp_def Let_def)
  then have "t val = ''undefined'' \<longrightarrow>
            usageProp defn lines (key, val) = Inr lines \<and>
            generateUsageCode (config\<lparr>props := before @ (key, val) # after\<rparr>) defn =
              generateUsageCode (config\<lparr>props := before @ after\<rparr>) defn"
    using generateUsageCode_skip [of defn "(key, val)"] by simp
  moreover have "t = quotedOrUndefined \<longrightarrow> usageProp defn lines (key, JStr []) = Inr lines"
    using assms by (simp add: lookupProp_def Let_def quotedOrUndefined_def)
  ultimately show ?thesis by (rule conjI)
qed

theorem usageProp_transform_undefined_witness:
  "propSchema liquidToggleDefinition = Some (map_of liquidTogglePropSchema) \<and>
   map_option transform (map_of liquidTogglePropSchema ''primaryColor'') = Some (Some quotedOrUndefined) \<and>
   quotedOrUndefined (JStr []) = ''undefined'' \<and>
   usageProp liquidToggleDefinition [] (''primaryColor'', JStr []) = Inr [] \<and>
   generateUsageCode (defaultToggleConfig\<lparr>props := [(''primaryColor'', JStr []), (''variant'', JStr ''success'')]\<rparr>)
       liquidToggleDefinition =
     generateUsageCode (defaultToggleConfig\<lparr>props := [(''variant'', JStr ''success'')]\<rparr>)
       liquidToggleDefinition"
  using usageProp_transform_undefined [OF toggle_fields(2) toggle_prop(2), where t = quotedOrUndefined
      and val = "JStr []" and lines = "[]" and before = "[]"
      and after = "[(''variant'', JStr ''success'')]" and config = defaultToggleConfig]
  by (simp add: lookupProp_def Let_def toggle_fields toggle_prop quotedOrUndefined_def)

text \<open>The same transform omits the empty string when the default is a colour.\<close>

lemma quotedOrUndefined_sentinel_any_default:
  "usageProp
     (liquidToggleDefinition\<lparr>propSchema := Some (map_of
        [(''primaryColor'',
          \<lparr>label = ''Primary Color'', type_p = PColor, defaultValue = JStr ''#3b82f6'',
           min_p = None, max_p = None, step_p = None, options_p = None,
           description_p = None, isAnimationProp = None, validate = None,
           transform = Some quotedOrUndefined\<rparr>)])\<rparr>)
     lines (''primaryColor'', JStr []) = Inr lines"
  by (simp add: lookupProp_def Let_def strictEq_def quotedOrUndefined_def)




section \<open>CSS code\<close>

text \<open>
  An inherited member has no \<^verbatim>\<open>isAnimationProp\<close>, so for the CSS only the own entries of the
  schema count.
\<close>

lemma cssProp_own:
  assumes "propSchema defn = Some schema"
  shows "cssProp strPositive defn cssProps (key, val) =
     (case schema key of
        None \<Rightarrow> Inr cssProps
      | Some propConfig \<Rightarrow>
          if isAnimationProp propConfig \<noteq> Some True then Inr cssProps
          else if strictEq val (defaultValue propConfig) then Inr cssProps
          else if key = ''duration''
          then Inr (cssProps @ [''  transition-duration: '' @ toString val @ ''ms;''])
          else if key = ''timingFunction''
          then Inr (cssProps @ [''  transition-timing-function: '' @ toString val @ '';''])
          else if key = ''delay''
          then (if greaterThanZero strPositive val
                then Inr (cssProps @ [''  transition-delay: '' @ toString val @ ''ms;''])
                else Inr cssProps)
          else Inr cssProps)"
proof (cases "schema key")
  case None
  then show ?thesis using assms by (simp add: lookupProp_def Let_def)
next
  case (Some propConfig)
  then have "lookupProp schema key = Config propConfig" by (simp add: lookupProp_def)
  then show ?thesis using assms Some by (simp add: Let_def)
qed

lemma cssProp_returns:
  assumes "propSchema defn = Some schema"
  shows "\<exists>cssProps'. cssProp strPositive defn cssProps entry = Inr cssProps'"
proof -
  obtain key val where e: "entry = (key, val)" by (cases entry)
  show ?thesis
    unfolding e cssProp_own [OF assms] by (simp split: option.splits)
qed

lemma cssProp_unchanged:
  assumes "propSchema defn = Some schema"
    and "\<not> animationPropChanged schema entry \<or> fst entry \<notin> set cssNameTable"
  shows "cssProp strPositive defn cssProps entry = Inr cssProps"
proof -
  obtain key val where e: "entry = (key, val)" by (cases entry)
  show ?thesis
  proof (cases "schema key")
    case None
    then show ?thesis using e by (simp add: cssProp_own [OF assms(1)] del: cssProp.simps)
  next
    case (Some propConfig)
    from assms(2) show ?thesis
    proof
      assume "\<not> animationPropChanged schema entry"
      then have "isAnimationProp propConfig \<noteq> Some True \<or> strictEq val (defaultValue propConfig)"
        using Some e by (simp add: animationPropChanged_def)
      then show ?thesis
      proof
        assume "isAnimationProp propConfig \<noteq> Some True"
        then show ?thesis using Some e by (simp add: cssProp_own [OF assms(1)] del: cssProp.simps)
      next
        assume "strictEq val (defaultValue propConfig)"
        then show ?thesis using Some e by (simp add: cssProp_own [OF assms(1)] del: cssProp.simps)
      qed
    next
      assume "fst entry \<notin> set cssNameTable"
      then have "key \<noteq> ''duration''" "key \<noteq> ''timingFunction''" "key \<noteq> ''delay''"
        using e by (simp_all add: cssNameTable_def)
      then show ?thesis using Some e by (simp add: cssProp_own [OF assms(1)] del: cssProp.simps)
    qed
  qed
qed

lemma generateCSSCode_eq:
  assumes "forEach (cssProp strPositive defn) (props config) [] = Inr cssProps"
  shows "generateCSSCode strPositive config defn =
           Inr (if cssProps = [] then None
                else Some (''.animated-element {'' @ nl @ join nl cssProps @ nl @ ''}''))"
  using assms by (simp add: generateCSSCode_def)

lemma toggle_default_props:
  "props defaultToggleConfig =
     [(''variant'', JStr ''default''),
      (''duration'', JNum 600),
      (''timingFunction'', JStr ''cubic-bezier(0.4, 0.0, 0.2, 1)''),
      (''delay'', JNum 0),
      (''primaryColor'', JStr []),
      (''secondaryColor'', JStr []),
      (''disabled'', JBool False)]"
  by (simp add: defaultToggleConfig_def liquidToggleDefinition_def)

lemma toggle_css:
  "forEach (cssProp strPositive liquidToggleDefinition) (props editedToggleConfig) [] =
     Inr [''  transition-duration: 800ms;'']"
  "forEach (cssProp strPositive liquidToggleDefinition) (props defaultToggleConfig) [] = Inr []"
  by (simp_all add: cssProp_own [OF toggle_fields(2)] editedToggleConfig_def toggle_default_props
      liquidTogglePropSchema_def strictEq_def showInt_def showNat.simps
      del: cssProp.simps)

text \<open>
  C7: the callback of generateCSSCode either leaves the CSS lines as they are or adds one
  line, and it adds one only for an animation prop off its default whose name is
  \<^verbatim>\<open>duration\<close>, \<^verbatim>\<open>timingFunction\<close> or \<^verbatim>\<open>delay\<close>. A delay of 0 adds no line, whatever the
  default, and a prop whose \<^verbatim>\<open>isAnimationProp\<close> is not true adds none, whatever its value:
  the CSS code is the one generated without the entry.
\<close>

theorem generateCSSCode_animation_props_only:
  assumes "propSchema defn = Some schema"
  shows "(cssProp strPositive defn cssProps (key, val) = Inr cssProps \<or>
            (animationPropChanged schema (key, val) \<and> key \<in> set cssNameTable \<and>
             (\<exists>line. cssProp strPositive defn cssProps (key, val) = Inr (cssProps @ [line])))) \<and>
         cssProp strPositive defn cssProps (''delay'', JNum 0) = Inr cssProps \<and>
         generateCSSCode strPositive (config\<lparr>props := before @ (''delay'', JNum 0) # after\<rparr>) defn =
           generateCSSCode strPositive (config\<lparr>props := before @ after\<rparr>) defn \<and>
         (\<forall>propConfig. schema key = Some propConfig \<and> isAnimationProp propConfig \<noteq> Some True \<longrightarrow>
            cssProp strPositive defn cssProps (key, val) = Inr cssProps \<and>
            generateCSSCode strPositive (config\<lparr>props := before @ (key, val) # after\<rparr>) defn =
              generateCSSCode strPositive (config\<lparr>props := before @ after\<rparr>) defn)"
proof -
  have d: "cssProp strPositive defn ls (''delay'', JNum 0) = Inr ls" for ls
    by (simp add: cssProp_own [OF assms] del: cssProp.simps split: option.splits)
  have n: "cssProp strPositive defn ls (key, val) = Inr ls"
    if "schema key = Some propConfig" "isAnimationProp propConfig \<noteq> Some True" for ls propConfig
    using that by (simp add: cssProp_own [OF assms] del: cssProp.simps)
  have a: "cssProp strPositive defn cssProps (key, val) = Inr cssProps \<or>
            (animationPropChanged schema (key, val) \<and> key \<in> set cssNameTable \<and>
             (\<exists>line. cssProp strPositive defn cssProps (key, val) = Inr (cssProps @ [line])))"
    by (auto simp add: cssProp_own [OF assms] animationPropChanged_def cssNameTable_def
        simp del: cssProp.simps split: option.splits)
  show ?thesis
    using a d n by (simp add: generateCSSCode_def forEach_skip del: cssProp.simps)
qed

theorem generateCSSCode_animation_props_only_witness:
  "propSchema liquidToggleDefinition = Some (map_of liquidTogglePropSchema) \<and>
   animationPropChanged (map_of liquidTogglePropSchema) (''duration'', JNum 800) \<and>
   ''duration'' \<in> set cssNameTable \<and>
   cssProp digitsPositive liquidToggleDefinition [] (''duration'', JNum 800) = Inr [''  transition-duration: 800ms;''] \<and>
   cssProp digitsPositive liquidToggleDefinition [] (''delay'', JNum 0) = Inr [] \<and>
   map_option isAnimationProp (map_of liquidTogglePropSchema ''variant'') = Some None \<and>
   cssProp digitsPositive liquidToggleDefinition [] (''variant'', JStr ''success'') = Inr [] \<and>
   generateCSSCode digitsPositive
       (editedToggleConfig\<lparr>props := [(''duration'', JNum 800), (''variant'', JStr ''success'')]\<rparr>)
       liquidToggleDefinition =
     generateCSSCode digitsPositive (editedToggleConfig\<lparr>props := [(''duration'', JNum 800)]\<rparr>)
       liquidToggleDefinition"
proof -
  have c: "cssProp digitsPositive liquidToggleDefinition [] (''duration'', JNum 800) =
             Inr [''  transition-duration: 800ms;'']"
    by (simp add: cssProp_own [OF toggle_fields(2)] toggle_prop strictEq_def showInt_def
        showNat.simps del: cssProp.simps)
  have a: "animationPropChanged (map_of liquidTogglePropSchema) (''duration'', JNum 800)"
    by (simp add: animationPropChanged_def toggle_prop strictEq_def)
  show ?thesis
    using c a
      generateCSSCode_animation_props_only [OF toggle_fields(2), where strPositive = digitsPositive
        and cssProps = "[]" and key = "''variant''" and val = "JStr ''success''"
        and config = editedToggleConfig and before = "[(''duration'', JNum 800)]" and after = "[]"]
      generateCSSCode_animation_props_only [OF toggle_fields(2), where strPositive = digitsPositive
        and cssProps = "[]" and key = "''duration''" and val = "JNum 800"
        and config = editedToggleConfig and before = "[]" and after = "[]"]
    by (simp add: cssProp_own [OF toggle_fields(2)] toggle_fields liquidTogglePropSchema_def
        cssNameTable_def strictEq_def del: cssProp.simps)
qed

section \<open>The generated code\<close>

lemma generateCode_eq:
  assumes "component defn = Some c" and "propSchema defn = Some schema"
  shows "\<exists>imports code cssProps.
           generateImports defn = Inr imports \<and>
           generateUsageCode config defn = Inr code \<and>
           forEach (cssProp strPositive defn) (props config) [] = Inr cssProps \<and>
           generateCode strPositive config defn =
             Inr \<lparr>componentCode_g = componentCodeOr defn, usageCode = code,
                  cssCode = (if cssProps = [] then None
                             else Some (''.animated-element {'' @ nl @ join nl cssProps @ nl @ ''}'')),
                  imports_g = imports\<rparr>"
proof -
  obtain code where u: "generateUsageCode config defn = Inr code"
    using generateUsageCode_returns [OF assms] by blast
  obtain cssProps where c: "forEach (cssProp strPositive defn) (props config) [] = Inr cssProps"
    using forEach_returns [of "cssProp strPositive defn"] cssProp_returns [OF assms(2)] by blast
  show ?thesis
    using u c generateCSSCode_eq [OF c] generateImports_eq [OF assms(1)]
    by (simp add: generateCode_def)
qed

text \<open>
  C5: in the imports of the generated code the primary import line is at index 0, and when
  some additional import has \<^verbatim>\<open>isType\<close> true the type-only import line comes after it, at
  index 1. The imports are the list that generateImports built.
\<close>

theorem generateCode_imports_order:
  assumes "component defn = Some c" and "propSchema defn = Some schema"
  shows "\<exists>g. generateCode strPositive config defn = Inr g \<and>
           generateImports defn = Inr (imports_g g) \<and>
           imports_g g ! 0 = importLine (componentName c # valueImportNames defn) (importPath defn) \<and>
           (typeImportNames defn \<noteq> [] \<longrightarrow>
              length (imports_g g) = 2 \<and>
              imports_g g ! 1 = typeImportLine (typeImportNames defn) (importPath defn))"
  using generateCode_eq [OF assms, of config strPositive] generateImports_eq [OF assms(1)]
  by auto

theorem generateCode_imports_order_witness:
  "component liquidToggleDefinition = Some (ComponentType ''LiquidToggle'') \<and>
   propSchema liquidToggleDefinition = Some (map_of liquidTogglePropSchema) \<and>
   typeImportNames liquidToggleDefinition \<noteq> [] \<and>
   (\<exists>g. generateCode digitsPositive editedToggleConfig liquidToggleDefinition = Inr g \<and>
      imports_g g ! 0 = (''import { LiquidToggle } from '@/components/liquid-components/LiquidToggle'' @ sq) \<and>
      length (imports_g g) = 2 \<and>
      imports_g g ! 1 = (''import type { LiquidToggleProps } from '@/components/liquid-components/LiquidToggle'' @ sq))"
  using generateCode_imports_order [OF toggle_fields(1) toggle_fields(2), of digitsPositive editedToggleConfig]
  by (auto simp add: toggle_imports toggle_fields importLine_def typeImportLine_def sq_def)

text \<open>
  C6, as amended: when \<^verbatim>\<open>definition.componentCode\<close> is set to a string that is not empty,
  generateCode returns it as the component code, unchanged; when it is missing or the
  empty string, the component code is the two-line comment that names
  \<^verbatim>\<open>definition.importPath\<close>.
\<close>

theorem generateCode_componentCode:
  assumes "component defn = Some c" and "propSchema defn = Some schema"
  shows "\<exists>g. generateCode strPositive config defn = Inr g \<and>
           componentCode_g g =
             (case componentCode defn of
                Some s \<Rightarrow>
                  if s \<noteq> [] then s
                  else ''// Component is defined in: '' @ importPath defn @ nl @
                       ''// Use the import statement above to use this component''
              | None \<Rightarrow>
                  ''// Component is defined in: '' @ importPath defn @ nl @
                  ''// Use the import statement above to use this component'')"
  using generateCode_eq [OF assms, of config strPositive]
  by (auto simp add: componentCodeOr_def generateComponentCode_def split: option.splits)

theorem generateCode_componentCode_witness:
  "component (liquidToggleDefinition\<lparr>componentCode := Some ''// custom template''\<rparr>) =
     Some (ComponentType ''LiquidToggle'') \<and>
   propSchema (liquidToggleDefinition\<lparr>componentCode := Some ''// custom template''\<rparr>) =
     Some (map_of liquidTogglePropSchema) \<and>
   (\<exists>g. generateCode digitsPositive editedToggleConfig
           (liquidToggleDefinition\<lparr>componentCode := Some ''// custom template''\<rparr>) = Inr g \<and>
        componentCode_g g = ''// custom template'') \<and>
   (\<exists>g. generateCode digitsPositive editedToggleConfig liquidToggleDefinition = Inr g \<and>
        componentCode_g g =
          ''// Component is defined in: @/components/liquid-components/LiquidToggle'' @ nl @
          ''// Use the import statement above to use this component'')"
  using generateCode_componentCode [of "liquidToggleDefinition\<lparr>componentCode := Some ''// custom template''\<rparr>"
      "ComponentType ''LiquidToggle''" "map_of liquidTogglePropSchema" digitsPositive editedToggleConfig]
    generateCode_componentCode [of liquidToggleDefinition
      "ComponentType ''LiquidToggle''" "map_of liquidTogglePropSchema" digitsPositive editedToggleConfig]
  by (simp add: toggle_fields) (simp add: liquidToggleDefinition_def)

text \<open>
  C6 as stated fails at the empty string: with \<^verbatim>\<open>componentCode\<close> set to it, the component
  code is the two-line comment.
\<close>

theorem generateCode_componentCode_empty_counterexample:
  "componentCode (liquidToggleDefinition\<lparr>componentCode := Some []\<rparr>) = Some [] \<and>
   map_sum id componentCode_g
     (generateCode digitsPositive defaultToggleConfig (liquidToggleDefinition\<lparr>componentCode := Some []\<rparr>)) =
   Inr (''// Component is defined in: @/components/liquid-components/LiquidToggle'' @ nl @
        ''// Use the import statement above to use this component'')"
proof -
  have "component (liquidToggleDefinition\<lparr>componentCode := Some []\<rparr>) = Some (ComponentType ''LiquidToggle'')"
    and "propSchema (liquidToggleDefinition\<lparr>componentCode := Some []\<rparr>) = Some (map_of liquidTogglePropSchema)"
    by (simp_all add: toggle_fields)
  from generateCode_eq [OF this, of defaultToggleConfig digitsPositive]
  show ?thesis
    by (auto simp add: componentCodeOr_def generateComponentCode_def toggle_fields)
qed

text \<open>
  C8: generateCode puts into \<^verbatim>\<open>cssCode\<close> nothing (\<open>None\<close>, never the empty string) when
  the loop has produced no CSS line, and otherwise the lines inside one
  \<^verbatim>\<open>.animated-element { ... }\<close> block. No line is produced when no entry of the props is
  an animation prop off its default with a name of the table.
\<close>

theorem generateCode_cssCode:
  assumes "component defn = Some c" and "propSchema defn = Some schema"
  shows "\<exists>g cssProps.
           forEach (cssProp strPositive defn) (props config) [] = Inr cssProps \<and>
           generateCode strPositive config defn = Inr g \<and>
           cssCode g = (if cssProps = [] then None
                        else Some (''.animated-element {'' @ nl @ join nl cssProps @ nl @ ''}'')) \<and>
           cssCode g \<noteq> Some [] \<and>
           ((\<forall>entry \<in> set (props config).
               \<not> animationPropChanged schema entry \<or> fst entry \<notin> set cssNameTable) \<longrightarrow>
            cssCode g = None)"
proof -
  obtain imps code cssProps where
    f: "forEach (cssProp strPositive defn) (props config) [] = Inr cssProps" and
    g: "generateCode strPositive config defn =
             Inr \<lparr>componentCode_g = componentCodeOr defn, usageCode = code,
                  cssCode = (if cssProps = [] then None
                             else Some (''.animated-element {'' @ nl @ join nl cssProps @ nl @ ''}'')),
                  imports_g = imps\<rparr>"
    using generateCode_eq [OF assms, of config strPositive] by blast
  have "cssProps = []"
    if "\<forall>entry \<in> set (props config).
          \<not> animationPropChanged schema entry \<or> fst entry \<notin> set cssNameTable"
  proof -
    have "forEach (cssProp strPositive defn) (props config) [] = Inr []"
      using that by (intro forEach_all_skip cssProp_unchanged [OF assms(2)]) blast
    with f show ?thesis by simp
  qed
  then have "(if cssProps = [] then None
                else Some (''.animated-element {'' @ nl @ join nl cssProps @ nl @ ''}'')) = None"
    if "\<forall>entry \<in> set (props config).
          \<not> animationPropChanged schema entry \<or> fst entry \<notin> set cssNameTable"
    using that by simp
  moreover have "(if cssProps = [] then None
                else Some (''.animated-element {'' @ nl @ join nl cssProps @ nl @ ''}'')) \<noteq> Some []"
    by simp
  ultimately show ?thesis
    using f g by simp
qed

theorem generateCode_cssCode_witness:
  "component liquidToggleDefinition = Some (ComponentType ''LiquidToggle'') \<and>
   propSchema liquidToggleDefinition = Some (map_of liquidTogglePropSchema) \<and>
   (\<exists>g. generateCode digitsPositive editedToggleConfig liquidToggleDefinition = Inr g \<and>
        cssCode g = Some (''.animated-element {'' @ nl @ ''  transition-duration: 800ms;'' @ nl @ ''}'')) \<and>
   (\<exists>g. generateCode digitsPositive defaultToggleConfig liquidToggleDefinition = Inr g \<and> cssCode g = None)"
proof -
  have d: "\<forall>entry \<in> set (props defaultToggleConfig).
      \<not> animationPropChanged (map_of liquidTogglePropSchema) entry \<or> fst entry \<notin> set cssNameTable"
    by (simp add: defaultToggleConfig_def liquidToggleDefinition_def liquidTogglePropSchema_def
        animationPropChanged_def strictEq_def)
  show ?thesis
    using d
      generateCode_cssCode [OF toggle_fields(1) toggle_fields(2), of digitsPositive editedToggleConfig]
      generateCode_cssCode [OF toggle_fields(1) toggle_fields(2), of digitsPositive defaultToggleConfig]
    by (auto simp add: toggle_fields toggle_css)
qed

section \<open>Registry\<close>

lemma register_fresh:
  assumes "registerComponent defn r = (Inr (), r')"
  shows "r' = r @ [(id_c defn, defn)] \<and> \<not> mapHas r (id_c defn)"
proof (cases "mapHas r (id_c defn)")
  case True
  with assms show ?thesis by (simp add: registerComponent_def)
next
  case False
  with assms show ?thesis
    by (cases "component defn"; cases "propSchema defn")
       (simp_all add: registerComponent_def mapSet_def)
qed

lemma mapGet_appended:
  assumes "\<not> mapHas r k"
  shows "mapGet (r @ [(k, v)]) k = Some v"
proof -
  have "map_of r k = None" using assms by (simp add: mapHas_def map_of_eq_None_iff)
  then show ?thesis by (simp add: mapGet_def map_add_def)
qed

text \<open>
  C9: registering a definition whose id is present throws, and leaves the registry as it
  was: the same entries, and the same definition under that id. After a successful
  registration, a second one with the same id throws, and the id still gives the first
  definition.
\<close>

theorem registerComponent_duplicate:
  "(hasComponent (id_c defn) r \<longrightarrow>
      registerComponent defn r =
        (Inl (Error (''Component with ID '' @ dq @ id_c defn @ dq @ '' is already registered'')), r) \<and>
      getComponent (id_c defn) (snd (registerComponent defn r)) = getComponent (id_c defn) r \<and>
      getComponent (id_c defn) r \<noteq> None \<and>
      getAllComponents (snd (registerComponent defn r)) = getAllComponents r) \<and>
   (registerComponent first start = (Inr (), registered) \<and> id_c second = id_c first \<longrightarrow>
      (\<exists>e. registerComponent second registered = (Inl e, registered)) \<and>
      getComponent (id_c first) (snd (registerComponent second registered)) = Some first)"
proof -
  have a: "registerComponent d m =
             (Inl (Error (''Component with ID '' @ dq @ id_c d @ dq @ '' is already registered'')), m)"
    if "mapHas m (id_c d)" for d m
    using that by (simp add: registerComponent_def)
  have b: "getComponent (id_c defn) r \<noteq> None" if "hasComponent (id_c defn) r"
    using that by (simp add: hasComponent_def getComponent_def mapGet_def mapHas_def map_of_eq_None_iff)
  have c: "(\<exists>e. registerComponent second registered = (Inl e, registered)) \<and>
      getComponent (id_c first) (snd (registerComponent second registered)) = Some first"
    if r: "registerComponent first start = (Inr (), registered)" and i: "id_c second = id_c first"
  proof -
    have registered: "registered = start @ [(id_c first, first)]" and fresh: "\<not> mapHas start (id_c first)"
      using register_fresh [OF r] by simp_all
    have h: "mapHas registered (id_c second)" by (simp add: registered i mapHas_def)
    have g: "getComponent (id_c first) registered = Some first"
      using mapGet_appended [OF fresh] by (simp add: getComponent_def registered)
    show ?thesis using a [OF h] g by simp
  qed
  have 1: "hasComponent (id_c defn) r \<longrightarrow>
      registerComponent defn r =
        (Inl (Error (''Component with ID '' @ dq @ id_c defn @ dq @ '' is already registered'')), r) \<and>
      getComponent (id_c defn) (snd (registerComponent defn r)) = getComponent (id_c defn) r \<and>
      getComponent (id_c defn) r \<noteq> None \<and>
      getAllComponents (snd (registerComponent defn r)) = getAllComponents r"
    using a [of r defn] b by (simp add: hasComponent_def)
  have 2: "registerComponent first start = (Inr (), registered) \<and> id_c second = id_c first \<longrightarrow>
      (\<exists>e. registerComponent second registered = (Inl e, registered)) \<and>
      getComponent (id_c first) (snd (registerComponent second registered)) = Some first"
    using c by blast
  show ?thesis using 1 2 by (rule conjI)
qed

theorem registerComponent_duplicate_witness:
  "registerComponent liquidToggleDefinition [] =
     (Inr (), [(''liquid-toggle'', liquidToggleDefinition)]) \<and>
   id_c (liquidToggleDefinition\<lparr>name := ''Another Toggle''\<rparr>) = id_c liquidToggleDefinition \<and>
   hasComponent (id_c (liquidToggleDefinition\<lparr>name := ''Another Toggle''\<rparr>))
     [(''liquid-toggle'', liquidToggleDefinition)] \<and>
   registerComponent (liquidToggleDefinition\<lparr>name := ''Another Toggle''\<rparr>)
       [(''liquid-toggle'', liquidToggleDefinition)] =
     (Inl (Error (''Component with ID '' @ dq @ ''liquid-toggle'' @ dq @ '' is already registered'')),
      [(''liquid-toggle'', liquidToggleDefinition)]) \<and>
   getComponent ''liquid-toggle''
     (snd (registerComponent (liquidToggleDefinition\<lparr>name := ''Another Toggle''\<rparr>)
        [(''liquid-toggle'', liquidToggleDefinition)])) = Some liquidToggleDefinition"
proof -
  have r: "registerComponent liquidToggleDefinition [] =
     (Inr (), [(''liquid-toggle'', liquidToggleDefinition)])"
    by (simp add: registerComponent_def mapHas_def mapSet_def toggle_fields)
  have i: "id_c (liquidToggleDefinition\<lparr>name := ''Another Toggle''\<rparr>) = id_c liquidToggleDefinition"
    by simp
  have h: "hasComponent (id_c (liquidToggleDefinition\<lparr>name := ''Another Toggle''\<rparr>))
     [(''liquid-toggle'', liquidToggleDefinition)]"
    by (simp add: hasComponent_def mapHas_def toggle_fields)
  show ?thesis
    using r i h
      registerComponent_duplicate [where defn = "liquidToggleDefinition\<lparr>name := ''Another Toggle''\<rparr>"
        and r = "[(''liquid-toggle'', liquidToggleDefinition)]" and first = liquidToggleDefinition
        and start = "[]" and registered = "[(''liquid-toggle'', liquidToggleDefinition)]"
        and second = "liquidToggleDefinition\<lparr>name := ''Another Toggle''\<rparr>"]
    by (simp add: toggle_fields getComponent_def mapGet_def)
qed

end
